theory Spec2Isabelle
  imports Main
begin

section \<open>Python values and exceptions\<close>

text \<open>
  The routers pass ORM attribute values around untyped: a column value is whatever
  Python object the row holds. \<open>pyval\<close> is the universe of those objects: \<open>None\<close>,
  booleans, integers, strings, datetimes (as a clock reading) and the lists and
  dictionaries a JSON column decodes to.
\<close>

datatype pyval =
    PNone
  | PBool bool
  | PInt int
  | PStr string
  | PDateTime int
  | PList "pyval list"
  | PDict "(string \<times> pyval) list"

text \<open>Python truthiness, as \<open>if node.is_root\<close> evaluates it.\<close>

fun truthy :: "pyval \<Rightarrow> bool" where
  "truthy PNone = False"
| "truthy (PBool b) = b"
| "truthy (PInt i) = (i \<noteq> 0)"
| "truthy (PStr s) = (s \<noteq> [])"
| "truthy (PDateTime t) = True"
| "truthy (PList xs) = (xs \<noteq> [])"
| "truthy (PDict kvs) = (kvs \<noteq> [])"

text \<open>
  The exceptions the modelled code can raise. \<open>HTTPException\<close> carries the status code
  and the detail text; \<open>AttributeError\<close> the name of the attribute that was read;
  \<open>GenerationError\<close> and \<open>PersistenceError\<close> are the generation-time failures that the
  story generator raises into \<open>generate_story_task\<close>; \<open>PendingRollbackError\<close> is what a
  session raises when it is used after a failed flush without a rollback.
\<close>

datatype exn =
    HTTPException int string
  | AttributeError string
  | KeyError pyval
  | IntegrityError string
  | ValidationError string
  | GenerationError string
  | PersistenceError string
  | PendingRollbackError

definition bind_exn :: "exn + 'a \<Rightarrow> ('a \<Rightarrow> exn + 'b) \<Rightarrow> exn + 'b" where
  "bind_exn m f = (case m of Inl e \<Rightarrow> Inl e | Inr x \<Rightarrow> f x)"

text \<open>A 4xx status is a fault the client can correct, a 5xx status a server-side one.\<close>

fun is_client_error :: "exn \<Rightarrow> bool" where
  "is_client_error (HTTPException code detail) = (400 \<le> code \<and> code < 500)"
| "is_client_error e = False"

section \<open>The ORM models (models/story.py)\<close>

text \<open>
  \<open>Story\<close>: table \<open>stories\<close>. \<open>id\<close> is the primary key; \<open>title\<close>, \<open>session_id\<close> and
  \<open>created_at\<close> are nullable columns. The field names carry a prefix because the two
  models share column names.
\<close>

record Story =
  s_id :: int
  s_title :: "string option"
  s_session_id :: "string option"
  s_created_at :: "int option"

text \<open>
  \<open>StoryNode\<close>: table \<open>story_nodes\<close>. \<open>story_id\<close> is declared \<open>nullable=False\<close>;
  \<open>content\<close> is \<open>Column(JSON, nullable=True)\<close>; the three flags are nullable
  Booleans with default \<open>False\<close>; \<open>options\<close> is a JSON column with default \<open>list\<close>.
  A JSON column reads back as \<open>PNone\<close> when it holds no value.
\<close>

record StoryNode =
  n_id :: int
  n_story_id :: int
  n_content :: pyval
  n_is_root :: "bool option"
  n_is_ending :: "bool option"
  n_is_winning :: "bool option"
  n_options :: pyval

text \<open>
  Modelled from the spec: models/job.py (the \<open>StoryJob\<close> class) is missing. The fields
  are the attributes routers/story.py sets and filters on, with the spec's reading of
  them: identity \<open>job_id\<close>, owning session, requested theme, status, resulting story
  reference, error detail, completion timestamp.
\<close>

record StoryJob =
  j_job_id :: string
  j_session_id :: string
  j_theme :: string
  j_status :: string
  j_story_id :: pyval
  j_error :: pyval
  j_completed_at :: pyval

text \<open>The store: one list of rows per table, in the order the store returns them.\<close>

record db =
  stories :: "Story list"
  story_nodes :: "StoryNode list"
  story_jobs :: "StoryJob list"

subsection \<open>Attribute reads\<close>

definition opt_val :: "('a \<Rightarrow> pyval) \<Rightarrow> 'a option \<Rightarrow> pyval" where
  "opt_val f v = (case v of None \<Rightarrow> PNone | Some x \<Rightarrow> f x)"

text \<open>
  The value of the mapped column named \<open>a\<close> on an instance, \<open>None\<close> when the class maps
  no column of that name. The names are the ones models/story.py declares. (The
  relationship attributes \<open>story\<close> and \<open>nodes\<close> are not columns; no router reads them.)
\<close>

definition Story_columns :: "Story \<Rightarrow> string \<Rightarrow> pyval option" where
  "Story_columns s a =
     (if a = ''id'' then Some (PInt (s_id s))
      else if a = ''title'' then Some (opt_val PStr (s_title s))
      else if a = ''session_id'' then Some (opt_val PStr (s_session_id s))
      else if a = ''created_at'' then Some (opt_val PDateTime (s_created_at s))
      else None)"

definition StoryNode_columns :: "StoryNode \<Rightarrow> string \<Rightarrow> pyval option" where
  "StoryNode_columns n a =
     (if a = ''id'' then Some (PInt (n_id n))
      else if a = ''story_id'' then Some (PInt (n_story_id n))
      else if a = ''content'' then Some (n_content n)
      else if a = ''is_root'' then Some (opt_val PBool (n_is_root n))
      else if a = ''is_ending'' then Some (opt_val PBool (n_is_ending n))
      else if a = ''is_winning'' then Some (opt_val PBool (n_is_winning n))
      else if a = ''options'' then Some (n_options n)
      else None)"

text \<open>\<open>obj.a\<close>: the column's value, or \<open>AttributeError\<close> when the class has no such attribute.\<close>

definition getattr :: "(string \<Rightarrow> pyval option) \<Rightarrow> string \<Rightarrow> exn + pyval" where
  "getattr cols a = (case cols a of None \<Rightarrow> Inl (AttributeError a) | Some v \<Rightarrow> Inr v)"

section \<open>Reading a story (routers/story.py)\<close>

text \<open>
  Modelled from the spec: schemas/story.py (\<open>CompleteStoryNodeResponse\<close>,
  \<open>CompleteStoryResponse\<close>) is missing. The fields are the keyword arguments the router
  passes; the values are kept as passed (the spec: options are copied verbatim).
\<close>

record CompleteStoryNodeResponse =
  r_id :: pyval
  r_content :: pyval
  r_is_ending :: pyval
  r_is_winning_ending :: pyval
  r_options :: pyval

record CompleteStoryResponse =
  c_id :: pyval
  c_title :: pyval
  c_session_id :: pyval
  c_created_at :: pyval
  c_root_node :: CompleteStoryNodeResponse
  c_all_nodes :: "pyval \<rightharpoonup> CompleteStoryNodeResponse"

text \<open>
  Lines 184-193: the loop that fills \<open>node_dict\<close>. The keyword arguments are evaluated
  in the order written: \<open>node.id\<close>, \<open>node.content\<close>, \<open>node.is_ending\<close>,
  \<open>node.is_winning_ending\<close>, \<open>node.options\<close>; then \<open>node.id\<close> again for the key.
\<close>

fun build_node_dict ::
  "StoryNode list \<Rightarrow> (pyval \<rightharpoonup> CompleteStoryNodeResponse)
     \<Rightarrow> exn + (pyval \<rightharpoonup> CompleteStoryNodeResponse)" where
  "build_node_dict [] node_dict = Inr node_dict"
| "build_node_dict (node # rest) node_dict =
     bind_exn (getattr (StoryNode_columns node) ''id'') (\<lambda>i.
     bind_exn (getattr (StoryNode_columns node) ''content'') (\<lambda>c.
     bind_exn (getattr (StoryNode_columns node) ''is_ending'') (\<lambda>e.
     bind_exn (getattr (StoryNode_columns node) ''is_winning_ending'') (\<lambda>w.
     bind_exn (getattr (StoryNode_columns node) ''options'') (\<lambda>opts.
     bind_exn (getattr (StoryNode_columns node) ''id'') (\<lambda>k.
       build_node_dict rest
         (node_dict(k \<mapsto> \<lparr>r_id = i, r_content = c, r_is_ending = e,
                            r_is_winning_ending = w, r_options = opts\<rparr>))))))))"

text \<open>Line 195: \<open>next((node for node in nodes if node.is_root), None)\<close>.\<close>

fun find_root :: "StoryNode list \<Rightarrow> exn + StoryNode option" where
  "find_root [] = Inr None"
| "find_root (node # rest) =
     bind_exn (getattr (StoryNode_columns node) ''is_root'') (\<lambda>r.
       if truthy r then Inr (Some node) else find_root rest)"

text \<open>
  Line 182: the rows whose \<open>story_id\<close> equals \<open>story.id\<close>, in store order.
\<close>

definition load_nodes :: "db \<Rightarrow> pyval \<Rightarrow> StoryNode list" where
  "load_nodes d sid = filter (\<lambda>n. PInt (n_story_id n) = sid) (story_nodes d)"

text \<open>
  Lines 199-206: the returned \<open>CompleteStoryResponse\<close>; \<open>node_dict[root_node.id]\<close>
  raises \<open>KeyError\<close> on a missing key.
\<close>

definition make_response ::
  "Story \<Rightarrow> StoryNode \<Rightarrow> (pyval \<rightharpoonup> CompleteStoryNodeResponse)
     \<Rightarrow> exn + CompleteStoryResponse" where
  "make_response story root node_dict =
     bind_exn (getattr (Story_columns story) ''id'') (\<lambda>i.
     bind_exn (getattr (Story_columns story) ''title'') (\<lambda>t.
     bind_exn (getattr (Story_columns story) ''session_id'') (\<lambda>s.
     bind_exn (getattr (Story_columns story) ''created_at'') (\<lambda>c.
     bind_exn (getattr (StoryNode_columns root) ''id'') (\<lambda>rid.
       case node_dict rid of
         None \<Rightarrow> Inl (KeyError rid)
       | Some root_view \<Rightarrow>
           Inr \<lparr>c_id = i, c_title = t, c_session_id = s, c_created_at = c,
                c_root_node = root_view, c_all_nodes = node_dict\<rparr>)))))"

text \<open>
  \<open>build_complete_story_tree\<close>. The function only queries the session, so the store it
  leaves is the store it was given; the model returns it beside the outcome. An ORM
  instance is truthy, so \<open>if not root_node\<close> holds exactly for \<open>None\<close>.
\<close>

definition build_complete_story_tree ::
  "db \<Rightarrow> Story \<Rightarrow> db \<times> (exn + CompleteStoryResponse)" where
  "build_complete_story_tree d story =
     (d,
      bind_exn (getattr (Story_columns story) ''id'') (\<lambda>sid.
      let nodes = load_nodes d sid in
      bind_exn (build_node_dict nodes Map.empty) (\<lambda>node_dict.
      bind_exn (find_root nodes) (\<lambda>root_node.
        case root_node of
          None \<Rightarrow> Inl (HTTPException 500 ''Story root node not found'')
        | Some root \<Rightarrow> make_response story root node_dict))))"

text \<open>
  \<open>get_complete_story\<close>: \<open>.first()\<close> is the first matching row or \<open>None\<close>.
\<close>

definition get_complete_story :: "db \<Rightarrow> int \<Rightarrow> db \<times> (exn + CompleteStoryResponse)" where
  "get_complete_story d story_id =
     (case find (\<lambda>s. s_id s = story_id) (stories d) of
        None \<Rightarrow> (d, Inl (HTTPException 404 ''Story not found''))
      | Some story \<Rightarrow> build_complete_story_tree d story)"

section \<open>Reading a job (routers/job.py)\<close>

definition get_job_status :: "db \<Rightarrow> string \<Rightarrow> db \<times> (exn + StoryJob)" where
  "get_job_status d job_id =
     (case find (\<lambda>j. j_job_id j = job_id) (story_jobs d) of
        None \<Rightarrow> (d, Inl (HTTPException 404 ''Job not found''))
      | Some job \<Rightarrow> (d, Inr job))"

section \<open>The background generation task (routers/story.py)\<close>

text \<open>
  What \<open>generate_story_task\<close> acts on: the store, and the record of the calls made to the
  story generator (session id and theme of each call).
\<close>

record world =
  w_db :: db
  w_generator_calls :: "(string \<times> string) list"

text \<open>
  The session \<open>SessionLocal()\<close> opens on the store. When a flush fails, the session's
  transaction is rolled back and the session refuses further work until \<open>rollback()\<close> is
  called: \<open>sess_failed\<close> records that state. The routers never call \<open>rollback()\<close>.
\<close>

record session =
  sess_db :: db
  sess_failed :: bool

fun replace_first :: "('a \<Rightarrow> bool) \<Rightarrow> 'a \<Rightarrow> 'a list \<Rightarrow> 'a list" where
  "replace_first P y [] = []"
| "replace_first P y (x # xs) = (if P x then y # xs else x # replace_first P y xs)"

text \<open>
  \<open>db.commit()\<close> after attribute writes on \<open>job\<close>. On a session whose transaction has
  failed it raises \<open>PendingRollbackError\<close> and writes nothing; otherwise the in-memory
  instance is written onto its row, the first row with its \<open>job_id\<close> (the one \<open>.first()\<close>
  returned).
\<close>

definition commit_job :: "session \<Rightarrow> StoryJob \<Rightarrow> exn + session" where
  "commit_job s job =
     (if sess_failed s then Inl PendingRollbackError
      else Inr (s\<lparr>sess_db := (sess_db s)\<lparr>story_jobs :=
                  replace_first (\<lambda>j. j_job_id j = j_job_id job) job
                    (story_jobs (sess_db s))\<rparr>\<rparr>))"

text \<open>
  Lines 118-126, the body of the inner \<open>try\<close>. \<open>StoryGenerator.generate_story\<close>
  (core/story_generator.py) is not among the sources and is taken as the parameter
  \<open>generate_story\<close>: given the session, the session id and the theme it leaves the
  session in some state and either raises or returns the new \<open>Story\<close>. \<open>completed_at\<close> is
  the reading of \<open>datetime.now()\<close> at line 125. The result is the session, the generator
  calls, the in-memory \<open>job\<close> with the attributes written so far, and how the body ends.
\<close>

definition attempt_generation ::
  "(session \<Rightarrow> string \<Rightarrow> string \<Rightarrow> session \<times> (exn + Story)) \<Rightarrow> int \<Rightarrow> session
     \<Rightarrow> (string \<times> string) list \<Rightarrow> StoryJob \<Rightarrow> string \<Rightarrow> string
     \<Rightarrow> session \<times> (string \<times> string) list \<times> StoryJob \<times> (exn + unit)" where
  "attempt_generation generate_story completed_at s calls job theme session_id =
     (let processing = job\<lparr>j_status := ''processing''\<rparr> in
      case commit_job s processing of
        Inl e \<Rightarrow> (s, calls, processing, Inl e)
      | Inr s1 \<Rightarrow>
          (case generate_story s1 session_id theme of
             (s2, generated) \<Rightarrow>
               (case bind_exn generated (\<lambda>story. getattr (Story_columns story) ''id'') of
                  Inl e \<Rightarrow> (s2, calls @ [(session_id, theme)], processing, Inl e)
                | Inr sid \<Rightarrow>
                    (let completed =
                           processing\<lparr>j_story_id := sid, j_status := ''completed'',
                                       j_completed_at := PDateTime completed_at\<rparr>
                     in case commit_job s2 completed of
                          Inl e \<Rightarrow> (s2, calls @ [(session_id, theme)], completed, Inl e)
                        | Inr s3 \<Rightarrow>
                            (s3, calls @ [(session_id, theme)], completed, Inr ())))))"

text \<open>
  \<open>generate_story_task\<close>. Without a job row it returns at once. Otherwise the body above
  runs, and \<open>except Exception\<close> (every \<open>exn\<close>) runs the handler of lines 128-131: it
  writes the failure onto the in-memory job and commits on the same session, with no
  rollback before. \<open>str\<close> is Python's \<open>str(e)\<close>, whose text the exception's class
  decides; \<open>failed_at\<close> is the reading of \<open>datetime.now()\<close> at line 129. The outcome is
  the world the task leaves and what the call itself does: \<open>Inr ()\<close> for a normal return,
  \<open>Inl e\<close> for an exception that leaves the function. Closing the session in \<open>finally\<close>
  changes no row.
\<close>

definition generate_story_task ::
  "(session \<Rightarrow> string \<Rightarrow> string \<Rightarrow> session \<times> (exn + Story)) \<Rightarrow> (exn \<Rightarrow> string)
     \<Rightarrow> int \<Rightarrow> int \<Rightarrow> world \<Rightarrow> string \<Rightarrow> string \<Rightarrow> string \<Rightarrow> world \<times> (exn + unit)" where
  "generate_story_task generate_story str completed_at failed_at w job_id theme session_id =
     (case find (\<lambda>j. j_job_id j = job_id) (story_jobs (w_db w)) of
        None \<Rightarrow> (w, Inr ())
      | Some job \<Rightarrow>
          (case attempt_generation generate_story completed_at
                  \<lparr>sess_db = w_db w, sess_failed = False\<rparr> (w_generator_calls w)
                  job theme session_id of
             (s, calls, job', Inr u) \<Rightarrow>
               (\<lparr>w_db = sess_db s, w_generator_calls = calls\<rparr>, Inr ())
           | (s, calls, job', Inl e) \<Rightarrow>
               (case commit_job s
                       (job'\<lparr>j_status := ''failed'', j_completed_at := PDateTime failed_at,
                              j_error := PStr (str e)\<rparr>) of
                  Inr s' \<Rightarrow> (\<lparr>w_db = sess_db s', w_generator_calls = calls\<rparr>, Inr ())
                | Inl e' \<Rightarrow> (\<lparr>w_db = sess_db s, w_generator_calls = calls\<rparr>, Inl e'))))"

text \<open>The job row a job identity names: the first row that carries it.\<close>

definition lookup_job :: "db \<Rightarrow> string \<Rightarrow> StoryJob option" where
  "lookup_job d job_id = find (\<lambda>j. j_job_id j = job_id) (story_jobs d)"

section \<open>Writing a node row (models/story.py)\<close>

text \<open>
  The keyword arguments of the \<open>StoryNode\<close> constructor; \<open>None\<close> stands for an attribute
  that is not set, or set to Python's \<open>None\<close>.
\<close>

record StoryNode_kwargs =
  k_story_id :: "int option"
  k_content :: pyval
  k_is_root :: "bool option"
  k_is_ending :: "bool option"
  k_is_winning :: "bool option"
  k_options :: "pyval option"

text \<open>The integer primary key the store assigns: one more than the largest in the table.\<close>

definition next_id :: "int list \<Rightarrow> int" where
  "next_id ids = fold max ids 0 + 1"

text \<open>A Boolean column left unset takes its declared default \<open>False\<close>.\<close>

definition flag_default :: "bool option \<Rightarrow> bool option" where
  "flag_default v = (case v of None \<Rightarrow> Some False | Some b \<Rightarrow> Some b)"

text \<open>
  \<open>db.add(node); db.flush()\<close>: the INSERT. The column declarations decide what is
  stored: \<open>story_id\<close> is \<open>nullable=False\<close>, so a row without it is refused with an
  \<open>IntegrityError\<close>; \<open>content\<close> is \<open>nullable=True\<close> and is stored as given; \<open>options\<close>
  left unset takes its default, the empty list. \<open>story_id\<close> is also a foreign key to
  \<open>stories.id\<close>; whether the engine enforces it depends on the configured database
  (core/config.py is not among the sources), so it is the parameter \<open>fk\<close>.
\<close>

definition add_StoryNode ::
  "bool \<Rightarrow> db \<Rightarrow> StoryNode_kwargs \<Rightarrow> exn + (StoryNode \<times> db)" where
  "add_StoryNode fk d k =
     (case k_story_id k of
        None \<Rightarrow> Inl (IntegrityError ''NOT NULL constraint failed: story_nodes.story_id'')
      | Some sid \<Rightarrow>
          if fk \<and> sid \<notin> set (map s_id (stories d))
          then Inl (IntegrityError ''FOREIGN KEY constraint failed'')
          else
          let node = \<lparr>n_id = next_id (map n_id (story_nodes d)),
                       n_story_id = sid,
                       n_content = k_content k,
                       n_is_root = flag_default (k_is_root k),
                       n_is_ending = flag_default (k_is_ending k),
                       n_is_winning = flag_default (k_is_winning k),
                       n_options = (case k_options k of None \<Rightarrow> PList [] | Some v \<Rightarrow> v)\<rparr>
          in Inr (node, d\<lparr>story_nodes := story_nodes d @ [node]\<rparr>))"

text \<open>A later flush of a changed instance: the UPDATE of the row with its primary key.\<close>

definition flush_StoryNode :: "db \<Rightarrow> StoryNode \<Rightarrow> db" where
  "flush_StoryNode d node =
     d\<lparr>story_nodes := map (\<lambda>n. if n_id n = n_id node then node else n) (story_nodes d)\<rparr>"

section \<open>TreeExpander\<close>

text \<open>
  Modelled from the spec: core/story_generator.py, which holds the expansion of a
  generated tree into rows, is missing. The in-memory schema tree is the one of spec 4.1:
  a node has content, the two flags and an optional list of options; an option has a
  text and an embedded next node.
\<close>

datatype schema_node =
  SchemaNode (sn_content: string) (sn_isEnding: bool) (sn_isWinningEnding: bool)
             (sn_options: "schema_option list option")
and schema_option =
  SchemaOption (so_text: string) (so_nextNode: schema_node)

text \<open>
  Modelled from the spec: the operation \<open>expand(store, story_id, schema_node, is_root)\<close>
  of spec 4.2, which is missing with core/story_generator.py. It creates one node with an
  empty option list and persists it; if the schema node is not an ending and has options,
  it expands each option's next node in order (not as root), appends
  \<open>{text, nextNode: child identity}\<close>, and persists the option list onto the parent;
  an ending keeps its options empty. It returns the created node's identity. A failed
  write aborts the expansion.
\<close>

fun expand :: "bool \<Rightarrow> db \<Rightarrow> int \<Rightarrow> schema_node \<Rightarrow> bool \<Rightarrow> exn + (int \<times> db)"
and expand_options ::
  "bool \<Rightarrow> db \<Rightarrow> int \<Rightarrow> schema_option list \<Rightarrow> pyval list
     \<Rightarrow> exn + (pyval list \<times> db)" where
  "expand fk d story_id (SchemaNode content isEnding isWinningEnding options) is_root =
     bind_exn (add_StoryNode fk d \<lparr>k_story_id = Some story_id, k_content = PStr content,
                 k_is_root = Some is_root, k_is_ending = Some isEnding,
                 k_is_winning = Some isWinningEnding, k_options = Some (PList [])\<rparr>)
       (\<lambda>(node, d1).
          case options of
            None \<Rightarrow> Inr (n_id node, d1)
          | Some opts \<Rightarrow>
              if \<not> isEnding \<and> opts \<noteq> [] then
                bind_exn (expand_options fk d1 story_id opts [])
                  (\<lambda>(option_list, d2).
                     Inr (n_id node, flush_StoryNode d2 (node\<lparr>n_options := PList option_list\<rparr>)))
              else Inr (n_id node, d1))"
| "expand_options fk d story_id [] acc = Inr (acc, d)"
| "expand_options fk d story_id (SchemaOption text child # rest) acc =
     bind_exn (expand fk d story_id child False)
       (\<lambda>(child_id, d1).
          expand_options fk d1 story_id rest
            (acc @ [PDict [(''text'', PStr text), (''nextNode'', PInt child_id)]]))"


text \<open>Ending consistency in the spec's words: options is empty iff is_ending is true.\<close>

definition ending_consistent :: "StoryNode \<Rightarrow> bool" where
  "ending_consistent n = ((n_options n = PList []) = (n_is_ending n = Some True))"

text \<open>The half of ending consistency that expansion keeps: an ending has no options.\<close>

definition ending_has_no_options :: "StoryNode \<Rightarrow> bool" where
  "ending_has_no_options n = (n_is_ending n = Some True \<longrightarrow> n_options n = PList [])"

section \<open>NarrativeSchema (core/models.py)\<close>

text \<open>
  The three pydantic models. \<open>StoryOptionLLM.nextNode\<close> is declared \<open>Dict[str, Any]\<close>:
  a dictionary, not a \<open>StoryNodeLLM\<close>. \<open>StoryNodeLLM.options\<close> is
  \<open>Optional[List[StoryOptionLLM]]\<close>.
\<close>

record StoryOptionLLM =
  o_text :: string
  o_nextNode :: "(string \<times> pyval) list"

record StoryNodeLLM =
  l_content :: string
  l_isEnding :: bool
  l_isWinningEnding :: bool
  l_options :: "StoryOptionLLM list option"

record StoryLLMResponse =
  m_title :: string
  m_rootNode :: StoryNodeLLM

text \<open>
  Validation of a decoded JSON value against a declared field type. A scalar is accepted
  in its own JSON type (the coercions of pydantic's lax mode, such as \<open>1\<close> for \<open>true\<close>,
  are left out); every declared field has no default and must be present (pydantic 2:
  an \<open>Optional\<close> field without default is required and may be \<open>null\<close>); keys that are
  not declared are ignored. \<open>PDict\<close> stands for a Python dictionary, whose keys are
  distinct; a key is looked up with \<open>map_of\<close>.
\<close>

fun as_str :: "pyval \<Rightarrow> string option" where
  "as_str (PStr s) = Some s"
| "as_str v = None"

fun as_bool :: "pyval \<Rightarrow> bool option" where
  "as_bool (PBool b) = Some b"
| "as_bool v = None"

fun as_dict :: "pyval \<Rightarrow> (string \<times> pyval) list option" where
  "as_dict (PDict kvs) = Some kvs"
| "as_dict v = None"

definition required :: "(string \<times> pyval) list \<Rightarrow> string \<Rightarrow> (pyval \<Rightarrow> 'a option) \<Rightarrow> 'a option" where
  "required kvs name parse = Option.bind (map_of kvs name) parse"

definition parse_StoryOptionLLM :: "pyval \<Rightarrow> StoryOptionLLM option" where
  "parse_StoryOptionLLM v =
     Option.bind (as_dict v) (\<lambda>kvs.
     Option.bind (required kvs ''text'' as_str) (\<lambda>t.
     Option.bind (required kvs ''nextNode'' as_dict) (\<lambda>n.
       Some \<lparr>o_text = t, o_nextNode = n\<rparr>)))"

fun parse_list :: "(pyval \<Rightarrow> 'a option) \<Rightarrow> pyval list \<Rightarrow> 'a list option" where
  "parse_list parse [] = Some []"
| "parse_list parse (x # xs) =
     Option.bind (parse x) (\<lambda>y. Option.bind (parse_list parse xs) (\<lambda>ys. Some (y # ys)))"

fun parse_options :: "pyval \<Rightarrow> StoryOptionLLM list option option" where
  "parse_options PNone = Some None"
| "parse_options (PList xs) = Option.bind (parse_list parse_StoryOptionLLM xs) (\<lambda>os. Some (Some os))"
| "parse_options v = None"

definition parse_StoryNodeLLM :: "pyval \<Rightarrow> StoryNodeLLM option" where
  "parse_StoryNodeLLM v =
     Option.bind (as_dict v) (\<lambda>kvs.
     Option.bind (required kvs ''content'' as_str) (\<lambda>c.
     Option.bind (required kvs ''isEnding'' as_bool) (\<lambda>e.
     Option.bind (required kvs ''isWinningEnding'' as_bool) (\<lambda>w.
     Option.bind (required kvs ''options'' parse_options) (\<lambda>opts.
       Some \<lparr>l_content = c, l_isEnding = e, l_isWinningEnding = w, l_options = opts\<rparr>)))))"

definition parse_StoryLLMResponse :: "pyval \<Rightarrow> StoryLLMResponse option" where
  "parse_StoryLLMResponse v =
     Option.bind (as_dict v) (\<lambda>kvs.
     Option.bind (required kvs ''title'' as_str) (\<lambda>t.
     Option.bind (required kvs ''rootNode'' parse_StoryNodeLLM) (\<lambda>n.
       Some \<lparr>m_title = t, m_rootNode = n\<rparr>)))"

text \<open>
  \<open>model_validate\<close>: the parsed model, or pydantic's \<open>ValidationError\<close>, which names the
  model that was validated.
\<close>

definition validate_StoryNodeLLM :: "pyval \<Rightarrow> exn + StoryNodeLLM" where
  "validate_StoryNodeLLM v =
     (case parse_StoryNodeLLM v of
        None \<Rightarrow> Inl (ValidationError ''StoryNodeLLM'') | Some n \<Rightarrow> Inr n)"

definition validate_StoryLLMResponse :: "pyval \<Rightarrow> exn + StoryLLMResponse" where
  "validate_StoryLLMResponse v =
     (case parse_StoryLLMResponse v of
        None \<Rightarrow> Inl (ValidationError ''StoryLLMResponse'') | Some r \<Rightarrow> Inr r)"






section \<open>Root flags\<close>

definition root_flagged :: "StoryNode \<Rightarrow> bool" where
  "root_flagged n = (n_is_root n = Some True)"

definition root_count :: "StoryNode list \<Rightarrow> nat" where
  "root_count nodes = length (filter root_flagged nodes)"

section \<open>Sample stores\<close>

definition story1 :: Story where
  "story1 = \<lparr>s_id = 1, s_title = Some ''T'', s_session_id = Some ''s'', s_created_at = Some 0\<rparr>"

definition root1 :: StoryNode where
  "root1 = \<lparr>n_id = 1, n_story_id = 1, n_content = PStr ''C'', n_is_root = Some True,
            n_is_ending = Some True, n_is_winning = Some True, n_options = PList []\<rparr>"

definition root2 :: StoryNode where
  "root2 = \<lparr>n_id = 2, n_story_id = 1, n_content = PStr ''D'', n_is_root = Some True,
            n_is_ending = Some True, n_is_winning = Some False, n_options = PList []\<rparr>"

text \<open>The trivial story of the spec: one node, root and winning ending.\<close>

definition db_one_root :: db where
  "db_one_root = \<lparr>stories = [story1], story_nodes = [root1], story_jobs = []\<rparr>"

text \<open>A story whose rows carry two root flags.\<close>

definition db_two_roots :: db where
  "db_two_roots = \<lparr>stories = [story1], story_nodes = [root1, root2], story_jobs = []\<rparr>"

text \<open>A story that has no node rows.\<close>

definition db_no_nodes :: db where
  "db_no_nodes = \<lparr>stories = [story1], story_nodes = [], story_jobs = []\<rparr>"

text \<open>A node in the shape an expansion passes, with no content.\<close>

definition kwargs_without_content :: StoryNode_kwargs where
  "kwargs_without_content =
     \<lparr>k_story_id = Some 1, k_content = PNone, k_is_root = Some True,
      k_is_ending = Some True, k_is_winning = Some False, k_options = Some (PList [])\<rparr>"

text \<open>A schema node that is not an ending and carries no option list.\<close>

definition dead_end :: schema_node where
  "dead_end = SchemaNode ''C'' False False None"

text \<open>The one-branch story of the spec: a root with two options, each to an ending.\<close>

definition one_branch :: schema_node where
  "one_branch =
     SchemaNode ''C'' False False
       (Some [SchemaOption ''a'' (SchemaNode ''W'' True True (Some [])),
              SchemaOption ''b'' (SchemaNode ''L'' True False (Some []))])"

definition one_branch_db :: db where
  "one_branch_db =
     \<lparr>stories = [story1],
      story_nodes =
        [\<lparr>n_id = 1, n_story_id = 1, n_content = PStr ''C'', n_is_root = Some True,
          n_is_ending = Some False, n_is_winning = Some False,
          n_options = PList [PDict [(''text'', PStr ''a''), (''nextNode'', PInt 2)],
                             PDict [(''text'', PStr ''b''), (''nextNode'', PInt 3)]]\<rparr>,
         \<lparr>n_id = 2, n_story_id = 1, n_content = PStr ''W'', n_is_root = Some False,
          n_is_ending = Some True, n_is_winning = Some True, n_options = PList []\<rparr>,
         \<lparr>n_id = 3, n_story_id = 1, n_content = PStr ''L'', n_is_root = Some False,
          n_is_ending = Some True, n_is_winning = Some False, n_options = PList []\<rparr>],
      story_jobs = []\<rparr>"

text \<open>A generated node marked as an ending that still carries an option.\<close>

definition ending_with_option :: pyval where
  "ending_with_option =
     PDict [(''content'', PStr ''C''), (''isEnding'', PBool True),
            (''isWinningEnding'', PBool False),
            (''options'', PList [PDict [(''text'', PStr ''go''), (''nextNode'', PDict [])]])]"


text \<open>A pending job, its world, and a generator that stores one story and returns it.\<close>

definition job1 :: StoryJob where
  "job1 = \<lparr>j_job_id = ''j1'', j_session_id = ''s'', j_theme = ''space'', j_status = ''pending'',
           j_story_id = PNone, j_error = PNone, j_completed_at = PNone\<rparr>"

definition world1 :: world where
  "world1 = \<lparr>w_db = \<lparr>stories = [], story_nodes = [], story_jobs = [job1]\<rparr>,
             w_generator_calls = []\<rparr>"

definition store_one_story ::
  "session \<Rightarrow> string \<Rightarrow> string \<Rightarrow> session \<times> (exn + Story)" where
  "store_one_story s session_id theme =
     (let story = \<lparr>s_id = next_id (map s_id (stories (sess_db s))), s_title = Some theme,
                    s_session_id = Some session_id, s_created_at = None\<rparr>
      in (s\<lparr>sess_db := (sess_db s)\<lparr>stories := stories (sess_db s) @ [story]\<rparr>\<rparr>,
          Inr story))"

text \<open>
  A generator whose first store write fails in its flush: the session's transaction is
  rolled back, no row is written, and the failure is raised.
\<close>

definition failed_flush :: "session \<Rightarrow> string \<Rightarrow> string \<Rightarrow> session \<times> (exn + Story)" where
  "failed_flush s session_id theme =
     (s\<lparr>sess_failed := True\<rparr>, Inl (PersistenceError ''flush failed''))"

definition message :: "exn \<Rightarrow> string" where
  "message e = (case e of
       HTTPException code detail \<Rightarrow> detail
     | AttributeError a \<Rightarrow> a
     | KeyError k \<Rightarrow> ''key''
     | IntegrityError m \<Rightarrow> m
     | ValidationError m \<Rightarrow> m
     | GenerationError m \<Rightarrow> m
     | PersistenceError m \<Rightarrow> m
     | PendingRollbackError \<Rightarrow> ''rollback'')"

section \<open>Properties of reading\<close>

lemma find_absent: "(\<forall>x \<in> set xs. \<not> P x) \<Longrightarrow> find P xs = None"
  by (induction xs) auto

lemma find_Some_holds: "find P xs = Some x \<Longrightarrow> P x"
  by (induction xs) (auto split: if_splits)

lemma build_node_dict_Cons:
  "build_node_dict (node # rest) node_dict = Inl (AttributeError ''is_winning_ending'')"
  by (simp add: bind_exn_def getattr_def StoryNode_columns_def)

lemma find_root_find: "find_root nodes = Inr (find root_flagged nodes)"
  by (induction nodes)
     (auto simp: bind_exn_def getattr_def StoryNode_columns_def opt_val_def root_flagged_def
           split: option.splits)

lemma build_without_nodes:
  "load_nodes d (PInt (s_id story)) = [] \<Longrightarrow>
   snd (build_complete_story_tree d story) =
     Inl (HTTPException 500 ''Story root node not found'')"
  by (simp add: build_complete_story_tree_def bind_exn_def getattr_def Story_columns_def)

lemma build_with_nodes:
  "load_nodes d (PInt (s_id story)) \<noteq> [] \<Longrightarrow>
   snd (build_complete_story_tree d story) = Inl (AttributeError ''is_winning_ending'')"
  by (cases "load_nodes d (PInt (s_id story))")
     (simp_all add: build_complete_story_tree_def bind_exn_def getattr_def Story_columns_def
        build_node_dict_Cons del: build_node_dict.simps)

text \<open>
  C1. Assembling the trivial story (one node, flagged as root) does not return a view:
  the loop over the loaded nodes reads \<open>node.is_winning_ending\<close>, and \<open>StoryNode\<close> declares
  the column as \<open>is_winning\<close>, so the first node raises \<open>AttributeError\<close>.
\<close>

theorem build_complete_story_tree_single_root_raises:
  "snd (build_complete_story_tree db_one_root story1) =
     Inl (AttributeError ''is_winning_ending'')"
  by (simp add: build_complete_story_tree_def bind_exn_def getattr_def Story_columns_def
      StoryNode_columns_def load_nodes_def db_one_root_def story1_def root1_def)

text \<open>
  C2, as the code has it. The scan for the root takes the first root-flagged node in load
  order, so several root flags are not an error. The fault "Story root node not found"
  (status 500) is raised only when no loaded node is root-flagged, and it is raised for a
  story that has no node rows.
\<close>

theorem root_not_found_only_without_root:
  "find_root (load_nodes d (PInt (s_id story)))
     = Inr (find root_flagged (load_nodes d (PInt (s_id story))))
   \<and> (snd (build_complete_story_tree d story)
         = Inl (HTTPException 500 ''Story root node not found'')
       \<longrightarrow> root_count (load_nodes d (PInt (s_id story))) = 0)
   \<and> (load_nodes d (PInt (s_id story)) = []
       \<longrightarrow> snd (build_complete_story_tree d story)
             = Inl (HTTPException 500 ''Story root node not found'')
           \<and> \<not> is_client_error (HTTPException 500 ''Story root node not found''))"
proof (intro conjI impI)
  show "find_root (load_nodes d (PInt (s_id story)))
          = Inr (find root_flagged (load_nodes d (PInt (s_id story))))"
    by (rule find_root_find)
next
  assume raised: "snd (build_complete_story_tree d story)
                    = Inl (HTTPException 500 ''Story root node not found'')"
  have "load_nodes d (PInt (s_id story)) = []"
  proof (rule ccontr)
    assume "load_nodes d (PInt (s_id story)) \<noteq> []"
    from build_with_nodes[OF this] raised show False by simp
  qed
  then show "root_count (load_nodes d (PInt (s_id story))) = 0"
    by (simp add: root_count_def)
next
  assume "load_nodes d (PInt (s_id story)) = []"
  then show "snd (build_complete_story_tree d story)
               = Inl (HTTPException 500 ''Story root node not found'')"
    by (rule build_without_nodes)
next
  show "\<not> is_client_error (HTTPException 500 ''Story root node not found'')"
    by simp
qed

theorem root_not_found_only_without_root_witness:
  "load_nodes db_no_nodes (PInt (s_id story1)) = []
   \<and> snd (build_complete_story_tree db_no_nodes story1)
       = Inl (HTTPException 500 ''Story root node not found'')
   \<and> root_count (load_nodes db_no_nodes (PInt (s_id story1))) = 0"
proof -
  have e: "load_nodes db_no_nodes (PInt (s_id story1)) = []"
    by (simp add: load_nodes_def db_no_nodes_def)
  show ?thesis
    using e root_not_found_only_without_root[of db_no_nodes story1] by simp
qed

text \<open>
  Two root flags: the claimed fault is not raised, the scan returns the first flagged node.
\<close>

theorem two_roots_counterexample:
  "root_count (load_nodes db_two_roots (PInt (s_id story1))) = 2
   \<and> find_root (load_nodes db_two_roots (PInt (s_id story1))) = Inr (Some root1)
   \<and> snd (build_complete_story_tree db_two_roots story1)
       \<noteq> Inl (HTTPException 500 ''Story root node not found'')"
  by (simp add: build_complete_story_tree_def bind_exn_def getattr_def Story_columns_def
      StoryNode_columns_def load_nodes_def db_two_roots_def story1_def root1_def root2_def
      root_count_def root_flagged_def opt_val_def)

text \<open>
  C8. A job identity that no \<open>StoryJob\<close> row carries makes \<open>get_job_status\<close> fail with
  status 404 "Job not found", and a story identity that no \<open>Story\<close> row carries makes
  \<open>get_complete_story\<close> fail with status 404 "Story not found"; both are client
  errors, and both leave the store as it was.
\<close>

theorem absent_identity_is_not_found:
  "((\<forall>j \<in> set (story_jobs d). j_job_id j \<noteq> job_id) \<longrightarrow>
      get_job_status d job_id = (d, Inl (HTTPException 404 ''Job not found''))
      \<and> is_client_error (HTTPException 404 ''Job not found''))
   \<and> ((\<forall>s \<in> set (stories d). s_id s \<noteq> story_id) \<longrightarrow>
      get_complete_story d story_id = (d, Inl (HTTPException 404 ''Story not found''))
      \<and> is_client_error (HTTPException 404 ''Story not found''))"
proof (intro conjI impI)
  assume "\<forall>j \<in> set (story_jobs d). j_job_id j \<noteq> job_id"
  then have "find (\<lambda>j. j_job_id j = job_id) (story_jobs d) = None"
    by (rule find_absent)
  then show "get_job_status d job_id = (d, Inl (HTTPException 404 ''Job not found''))"
    by (simp add: get_job_status_def)
next
  assume "\<forall>s \<in> set (stories d). s_id s \<noteq> story_id"
  then have "find (\<lambda>s. s_id s = story_id) (stories d) = None"
    by (rule find_absent)
  then show "get_complete_story d story_id = (d, Inl (HTTPException 404 ''Story not found''))"
    by (simp add: get_complete_story_def)
qed simp_all

theorem absent_identity_is_not_found_witness:
  "map j_job_id (story_jobs db_one_root) = []
   \<and> map s_id (stories db_one_root) = [1]
   \<and> get_job_status db_one_root ''j9''
       = (db_one_root, Inl (HTTPException 404 ''Job not found''))
   \<and> get_complete_story db_one_root 7
       = (db_one_root, Inl (HTTPException 404 ''Story not found''))"
proof -
  have a: "\<forall>j \<in> set (story_jobs db_one_root). j_job_id j \<noteq> ''j9''"
    by (simp add: db_one_root_def)
  have b: "\<forall>s \<in> set (stories db_one_root). s_id s \<noteq> 7"
    by (simp add: db_one_root_def story1_def)
  have c: "map j_job_id (story_jobs db_one_root) = []"
    and e: "map s_id (stories db_one_root) = [1]"
    by (simp_all add: db_one_root_def story1_def)
  show ?thesis
    using a b c e absent_identity_is_not_found[of db_one_root "''j9''" 7] by blast
qed

text \<open>
  C9. Two calls of the assembly on the trivial story, the second on the store the first
  one left: the store is unchanged, but neither call yields a view. Both raise the
  \<open>AttributeError\<close> of \<open>node.is_winning_ending\<close>, so there are no two views to be
  structurally identical.
\<close>

theorem build_complete_story_tree_twice_raises:
  "build_complete_story_tree db_one_root story1 =
     (db_one_root, Inl (AttributeError ''is_winning_ending''))
   \<and> build_complete_story_tree (fst (build_complete_story_tree db_one_root story1)) story1 =
       (db_one_root, Inl (AttributeError ''is_winning_ending''))"
  by (simp add: build_complete_story_tree_def bind_exn_def getattr_def Story_columns_def
      StoryNode_columns_def load_nodes_def db_one_root_def story1_def root1_def)

section \<open>Properties of the background task\<close>

lemma find_replace_first:
  "find P xs = Some x \<Longrightarrow> P y \<Longrightarrow> find P (replace_first P y xs) = Some y"
  by (induction xs) (auto split: if_splits)

lemma lookup_commit_job:
  "lookup_job (sess_db s) (j_job_id job) = Some old \<Longrightarrow> \<not> sess_failed s \<Longrightarrow>
   \<exists>s'. commit_job s job = Inr s' \<and> lookup_job (sess_db s') (j_job_id job) = Some job
        \<and> \<not> sess_failed s'"
  by (simp add: lookup_job_def commit_job_def find_replace_first)

text \<open>
  When the generator leaves the job table alone and the session usable, the task returns
  normally with one terminal outcome on the job row: completed with the story's identity,
  or failed with the text of the exception.
\<close>

lemma generate_story_task_on_usable_session:
  assumes job: "lookup_job (w_db w) job_id = Some job"
    and gen: "generate_story
                \<lparr>sess_db = (w_db w)\<lparr>story_jobs :=
                    replace_first (\<lambda>j. j_job_id j = job_id) (job\<lparr>j_status := ''processing''\<rparr>)
                      (story_jobs (w_db w))\<rparr>,
                 sess_failed = False\<rparr> session_id theme = (s2, generated)"
    and frame: "story_jobs (sess_db s2)
                = replace_first (\<lambda>j. j_job_id j = job_id) (job\<lparr>j_status := ''processing''\<rparr>)
                      (story_jobs (w_db w))"
    and ok: "\<not> sess_failed s2"
  shows "snd (generate_story_task generate_story str completed_at failed_at w job_id theme
               session_id) = Inr ()
    \<and> lookup_job
         (w_db (fst (generate_story_task generate_story str completed_at failed_at w job_id
                       theme session_id)))
         job_id
       = Some (case generated of
                 Inr story \<Rightarrow>
                   job\<lparr>j_status := ''completed'', j_story_id := PInt (s_id story),
                        j_completed_at := PDateTime completed_at\<rparr>
               | Inl e \<Rightarrow>
                   job\<lparr>j_status := ''failed'', j_error := PStr (str e),
                        j_completed_at := PDateTime failed_at\<rparr>)"
proof -
  let ?p = "job\<lparr>j_status := ''processing''\<rparr>"
  have jid: "j_job_id job = job_id"
    using find_Some_holds[of "\<lambda>j. j_job_id j = job_id" "story_jobs (w_db w)" job] job
    by (simp add: lookup_job_def)
  have l2: "lookup_job (sess_db s2) job_id = Some ?p"
    using frame job jid by (simp add: lookup_job_def find_replace_first)
  have upd: "\<And>j. j_job_id j = job_id \<Longrightarrow>
      \<exists>s'. commit_job s2 j = Inr s' \<and> lookup_job (sess_db s') job_id = Some j"
    using lookup_commit_job[OF _ ok] l2 by metis
  have first: "commit_job \<lparr>sess_db = w_db w, sess_failed = False\<rparr> ?p
      = Inr \<lparr>sess_db = (w_db w)\<lparr>story_jobs :=
                    replace_first (\<lambda>j. j_job_id j = job_id) ?p (story_jobs (w_db w))\<rparr>,
             sess_failed = False\<rparr>"
    using jid by (simp add: commit_job_def)
  show ?thesis
  proof (cases generated)
    case (Inl e)
    let ?f = "?p\<lparr>j_status := ''failed'', j_completed_at := PDateTime failed_at,
                  j_error := PStr (str e)\<rparr>"
    from upd[of ?f] jid obtain s' where
      "commit_job s2 ?f = Inr s'" "lookup_job (sess_db s') job_id = Some ?f" by auto
    then show ?thesis using Inl job gen first
      by (simp add: generate_story_task_def attempt_generation_def
          lookup_job_def[symmetric] bind_exn_def Let_def)
  next
    case (Inr story)
    let ?c = "?p\<lparr>j_story_id := PInt (s_id story), j_status := ''completed'',
                  j_completed_at := PDateTime completed_at\<rparr>"
    from upd[of ?c] jid obtain s' where
      "commit_job s2 ?c = Inr s'" "lookup_job (sess_db s') job_id = Some ?c" by auto
    then show ?thesis using Inr job gen first
      by (simp add: generate_story_task_def attempt_generation_def
          lookup_job_def[symmetric] bind_exn_def Let_def getattr_def Story_columns_def)
  qed
qed

text \<open>
  C7. A generation-time failure that is a failed store write: the generator's flush
  fails and it raises. The handler writes the failure onto the in-memory job and commits
  on the same session without a rollback, so the commit raises \<open>PendingRollbackError\<close>:
  the exception leaves the task, and the job row keeps the status "processing" with
  no error text and no completion time.
\<close>

theorem generate_story_task_failed_flush_propagates:
  "generate_story_task failed_flush message 5 6 world1 ''j1'' ''space'' ''s'' =
     (\<lparr>w_db = \<lparr>stories = [], story_nodes = [],
                story_jobs = [job1\<lparr>j_status := ''processing''\<rparr>]\<rparr>,
       w_generator_calls = [(''s'', ''space'')]\<rparr>,
      Inl PendingRollbackError)"
  by (simp add: generate_story_task_def attempt_generation_def commit_job_def failed_flush_def
      world1_def job1_def bind_exn_def Let_def)

text \<open>
  C10. When no \<open>StoryJob\<close> row carries the job identity, \<open>generate_story_task\<close> returns at
  once: the store is unchanged and the generator has not been called.
\<close>

theorem generate_story_task_without_job:
  assumes "\<forall>j \<in> set (story_jobs (w_db w)). j_job_id j \<noteq> job_id"
  shows "generate_story_task generate_story str completed_at failed_at w job_id theme session_id
           = (w, Inr ())"
proof -
  have "find (\<lambda>j. j_job_id j = job_id) (story_jobs (w_db w)) = None"
    using assms by (rule find_absent)
  then show ?thesis by (simp add: generate_story_task_def)
qed

theorem generate_story_task_without_job_witness:
  "map j_job_id (story_jobs (w_db world1)) = [''j1'']
   \<and> generate_story_task store_one_story message 5 6 world1 ''j2'' ''space'' ''s''
       = (world1, Inr ())"
proof -
  have a: "\<forall>j \<in> set (story_jobs (w_db world1)). j_job_id j \<noteq> ''j2''"
    by (simp add: world1_def job1_def)
  have b: "map j_job_id (story_jobs (w_db world1)) = [''j1'']"
    by (simp add: world1_def job1_def)
  show ?thesis
    using a b
      generate_story_task_without_job[where w = world1 and job_id = "''j2''"
        and generate_story = store_one_story and str = message and completed_at = 5
        and failed_at = 6 and theme = "''space''" and session_id = "''s''"]
    by simp
qed

section \<open>Properties of the schema validation\<close>

lemmas parse_defs = parse_StoryLLMResponse_def parse_StoryNodeLLM_def parse_StoryOptionLLM_def
  required_def validate_StoryNodeLLM_def validate_StoryLLMResponse_def


















text \<open>
  C4, as the code has it. Validation does not relate the is-ending flag to the option
  list: the flag is copied into the result and decides nothing else, so a node is
  accepted with the flag true exactly when it is accepted with the flag false.
\<close>

theorem validation_ignores_is_ending:
  "validate_StoryNodeLLM (PDict ((''isEnding'', PBool c) # kvs)) =
     map_sum id (\<lambda>n. n\<lparr>l_isEnding := c\<rparr>)
       (validate_StoryNodeLLM (PDict ((''isEnding'', PBool b) # kvs)))"
  by (simp add: validate_StoryNodeLLM_def parse_StoryNodeLLM_def required_def
        split: option.splits Option.bind_splits)

text \<open>An ending that carries an option is accepted.\<close>

theorem ending_with_option_counterexample:
  "validate_StoryNodeLLM ending_with_option =
     Inr \<lparr>l_content = ''C'', l_isEnding = True, l_isWinningEnding = False,
          l_options = Some [\<lparr>o_text = ''go'', o_nextNode = []\<rparr>]\<rparr>"
  by (simp add: parse_defs ending_with_option_def)

section \<open>Properties of the stored nodes\<close>

text \<open>
  C5, as the code has it. A node row is stored exactly when its story reference is given
  (and, where the engine enforces the foreign key, names a stored story); the content is
  stored as given, absent or not.
\<close>

theorem add_StoryNode_requires_only_story_id:
  "((\<exists>node d'. add_StoryNode fk d k = Inr (node, d')) \<longleftrightarrow>
      (\<exists>sid. k_story_id k = Some sid \<and> (fk \<longrightarrow> sid \<in> set (map s_id (stories d)))))
   \<and> (add_StoryNode fk d k = Inr (node, d') \<longrightarrow>
        n_content node = k_content k \<and> k_story_id k = Some (n_story_id node)
        \<and> node \<in> set (story_nodes d'))"
  by (auto simp: add_StoryNode_def Let_def split: option.splits if_splits)

theorem add_StoryNode_requires_only_story_id_witness:
  "k_story_id kwargs_without_content = Some 1
   \<and> 1 \<in> set (map s_id (stories db_no_nodes))
   \<and> k_content kwargs_without_content = PNone
   \<and> (\<exists>node d'. add_StoryNode True db_no_nodes kwargs_without_content = Inr (node, d')
         \<and> n_content node = PNone \<and> n_story_id node = 1 \<and> node \<in> set (story_nodes d'))"
proof -
  have a: "k_story_id kwargs_without_content = Some 1"
    and c: "k_content kwargs_without_content = PNone"
    by (simp_all add: kwargs_without_content_def)
  have b: "1 \<in> set (map s_id (stories db_no_nodes))"
    by (simp add: db_no_nodes_def story1_def)
  from a b obtain node d' where
    e: "add_StoryNode True db_no_nodes kwargs_without_content = Inr (node, d')"
    using add_StoryNode_requires_only_story_id[of True db_no_nodes kwargs_without_content]
    by blast
  then have "n_content node = PNone \<and> n_story_id node = 1 \<and> node \<in> set (story_nodes d')"
    using add_StoryNode_requires_only_story_id[of True db_no_nodes kwargs_without_content
        node d'] a c
    by simp
  with a b c e show ?thesis by blast
qed

text \<open>A row is stored whose content is absent, also where the foreign key is enforced.\<close>

theorem content_absent_counterexample:
  "add_StoryNode True db_no_nodes kwargs_without_content =
     Inr (\<lparr>n_id = 1, n_story_id = 1, n_content = PNone, n_is_root = Some True,
            n_is_ending = Some True, n_is_winning = Some False, n_options = PList []\<rparr>,
          \<lparr>stories = [story1],
            story_nodes =
              [\<lparr>n_id = 1, n_story_id = 1, n_content = PNone, n_is_root = Some True,
                n_is_ending = Some True, n_is_winning = Some False, n_options = PList []\<rparr>],
            story_jobs = []\<rparr>)"
  by (simp add: add_StoryNode_def Let_def kwargs_without_content_def db_no_nodes_def
      story1_def next_id_def flag_default_def)

lemma add_StoryNode_inv:
  assumes "add_StoryNode fk d k = Inr (node, d1)" and "k_options k = Some (PList [])"
    and "\<forall>n \<in> set (story_nodes d). ending_has_no_options n"
  shows "\<forall>n \<in> set (story_nodes d1). ending_has_no_options n"
    and "n_options node = PList []" and "n_is_ending node = flag_default (k_is_ending k)"
  using assms
  by (auto simp: add_StoryNode_def Let_def ending_has_no_options_def
        split: option.splits if_splits)

lemma flush_StoryNode_inv:
  assumes "\<forall>n \<in> set (story_nodes d). ending_has_no_options n" and "ending_has_no_options node"
  shows "\<forall>n \<in> set (story_nodes (flush_StoryNode d node)). ending_has_no_options n"
  using assms by (auto simp: flush_StoryNode_def)

lemma expand_inv:
  "expand fk d story_id node is_root = Inr (nid, d') \<Longrightarrow>
     \<forall>n \<in> set (story_nodes d). ending_has_no_options n \<Longrightarrow>
     \<forall>n \<in> set (story_nodes d'). ending_has_no_options n"
  and expand_options_inv:
  "expand_options fk d story_id opts acc = Inr (ol, d') \<Longrightarrow>
     \<forall>n \<in> set (story_nodes d). ending_has_no_options n \<Longrightarrow>
     \<forall>n \<in> set (story_nodes d'). ending_has_no_options n"
proof (induction fk d story_id node is_root and fk d story_id opts acc
        arbitrary: nid d' and ol d' rule: expand_expand_options.induct)
  case (1 fk d story_id content isEnding isWinningEnding options is_root)
  let ?k = "\<lparr>k_story_id = Some story_id, k_content = PStr content,
                 k_is_root = Some is_root, k_is_ending = Some isEnding,
                 k_is_winning = Some isWinningEnding, k_options = Some (PList [])\<rparr>"
  from "1.prems"(1) obtain node d1 where add: "add_StoryNode fk d ?k = Inr (node, d1)"
    by (auto simp: bind_exn_def split: sum.splits)
  have inv1: "\<forall>n \<in> set (story_nodes d1). ending_has_no_options n"
    using add_StoryNode_inv(1)[OF add _ "1.prems"(2)] by simp
  have e: "n_is_ending node = Some isEnding"
    using add_StoryNode_inv(3)[OF add _ "1.prems"(2)] by (simp add: flag_default_def)
  show ?case
  proof (cases "\<exists>opts. options = Some opts \<and> \<not> isEnding \<and> opts \<noteq> []")
    case False
    then have "d' = d1" using "1.prems"(1) add
      by (auto simp: bind_exn_def split: option.splits if_splits)
    then show ?thesis using inv1 by simp
  next
    case True
    then obtain opts where o: "options = Some opts" "\<not> isEnding" "opts \<noteq> []" by blast
    from "1.prems"(1) add o obtain ol d2 where
      eo: "expand_options fk d1 story_id opts [] = Inr (ol, d2)"
      and d': "d' = flush_StoryNode d2 (node\<lparr>n_options := PList ol\<rparr>)"
      by (auto simp: bind_exn_def split: sum.splits)
    have inv2: "\<forall>n \<in> set (story_nodes d2). ending_has_no_options n"
      using "1.IH" o eo inv1 by blast
    have "ending_has_no_options (node\<lparr>n_options := PList ol\<rparr>)"
      using e o(2) by (simp add: ending_has_no_options_def)
    then show ?thesis using flush_StoryNode_inv[OF inv2] d' by simp
  qed
next
  case (2 fk d story_id acc)
  then show ?case by simp
next
  case (3 fk d story_id label child rest acc)
  from "3.prems"(1) obtain cid d1 where
    c: "expand fk d story_id child False = Inr (cid, d1)"
    and r: "expand_options fk d1 story_id rest
              (acc @ [PDict [(''text'', PStr label), (''nextNode'', PInt cid)]]) = Inr (ol, d')"
    by (auto simp: bind_exn_def split: sum.splits)
  have "\<forall>n \<in> set (story_nodes d1). ending_has_no_options n"
    using "3.IH"(1)[OF c "3.prems"(2)] .
  then show ?case using "3.IH"(2) r by blast
qed

text \<open>
  C6, as the expansion of spec 4.2 has it. Expansion keeps one half of ending consistency:
  if every ending in the store has an empty option list before a node is expanded, every
  ending has one afterwards (a node with options is never an ending). The other half is
  not kept: a node that is not an ending may have no options.
\<close>

theorem expand_keeps_endings_without_options:
  assumes "expand fk d story_id node is_root = Inr (nid, d')"
    and "\<forall>n \<in> set (story_nodes d). ending_has_no_options n"
  shows "\<forall>n \<in> set (story_nodes d'). ending_has_no_options n"
  using assms by (rule expand_inv)

theorem expand_keeps_endings_without_options_witness:
  "story_nodes db_no_nodes = []
   \<and> expand True db_no_nodes 1 one_branch True = Inr (1, one_branch_db)
   \<and> list_all ending_has_no_options (story_nodes one_branch_db)"
proof -
  have a: "\<forall>n \<in> set (story_nodes db_no_nodes). ending_has_no_options n"
    by (simp add: db_no_nodes_def)
  have b: "expand True db_no_nodes 1 one_branch True = Inr (1, one_branch_db)"
    by (simp add: one_branch_def one_branch_db_def db_no_nodes_def story1_def bind_exn_def
        add_StoryNode_def flush_StoryNode_def Let_def next_id_def flag_default_def)
  have c: "story_nodes db_no_nodes = []"
    by (simp add: db_no_nodes_def)
  show ?thesis
    using b c expand_keeps_endings_without_options[OF b a] by (simp add: list_all_iff)
qed

text \<open>
  A node that is not an ending and has no option list is stored with no options and
  without the ending flag: its row is not ending-consistent.
\<close>

theorem dead_end_counterexample:
  "expand True db_no_nodes 1 dead_end True =
     Inr (1, \<lparr>stories = [story1],
              story_nodes =
                [\<lparr>n_id = 1, n_story_id = 1, n_content = PStr ''C'', n_is_root = Some True,
                  n_is_ending = Some False, n_is_winning = Some False,
                  n_options = PList []\<rparr>],
              story_jobs = []\<rparr>)
   \<and> \<not> ending_consistent
         \<lparr>n_id = 1, n_story_id = 1, n_content = PStr ''C'', n_is_root = Some True,
          n_is_ending = Some False, n_is_winning = Some False, n_options = PList []\<rparr>"
  by (simp add: dead_end_def db_no_nodes_def story1_def bind_exn_def add_StoryNode_def
      Let_def next_id_def flag_default_def ending_consistent_def)

end
